theory Spec2Isabelle
  imports Main "HOL-Library.Sublist"
begin

section \<open>Data model\<close>

text \<open>
  The views of \<^verbatim>\<open>apps/assets/api/asset.py\<close> read four tables through the ORM. The model
  classes themselves are outside the file, so a row carries exactly what the views read
  from it. The key of a row is held as its text, in the one spelling the database gives it.
\<close>

type_synonym ident = string

text \<open>
  The views pass the raw text of a query parameter or of the URL to lookups by key. What a
  key field makes of a text is declared with the models, outside this file: a text field
  takes every text as it is, an integer or UUID field refuses a text that is no number or
  no UUID and reads several spellings as the same key. So the reading of a text as a key
  of a model is a parameter, \<open>to_key\<close>, carried with the tables: \<open>to_key db m s\<close> is the
  key that the text \<open>s\<close> spells for the model \<open>m\<close>, or \<open>None\<close> when the key field of \<open>m\<close>
  refuses \<open>s\<close>.
\<close>

datatype model = Asset | AdminUser | SystemUser | Node | Cluster | AssetGroup

text \<open>
  An asset: its primary key, the key of its cluster (\<^verbatim>\<open>cluster__id\<close>), and the rows of its
  two many-to-many relations, \<^verbatim>\<open>groups\<close> and \<^verbatim>\<open>nodes\<close>, as the keys of the related
  objects.
\<close>

record asset =
  a_id :: ident
  a_cluster :: ident
  a_groups :: "ident list"
  a_nodes :: "ident list"

text \<open>
  An admin user with what its two reverse managers return: \<^verbatim>\<open>asset_set.all()\<close> and
  \<^verbatim>\<open>cluster_set.all()\<close>, each as the list of keys that the two comprehensions of
  \<^verbatim>\<open>get_queryset\<close> build.
\<close>

record admin_user =
  au_id :: ident
  au_asset_set :: "ident list"
  au_cluster_set :: "ident list"

text \<open>
  A system user with the clusters that its method \<^verbatim>\<open>get_clusters()\<close> returns. The method
  is defined with the model, outside this file; its result is taken as given.
\<close>

record system_user =
  su_id :: ident
  su_get_clusters :: "ident list"

record node =
  n_id :: ident
  n_key :: string

record database =
  assets :: "asset list"
  admin_users :: "admin_user list"
  system_users :: "system_user list"
  nodes :: "node list"
  to_key :: "model \<Rightarrow> string \<Rightarrow> ident option"

text \<open>
  What a request can end with instead of a result: \<^verbatim>\<open>Http404\<close>; the exception of a key
  field that refuses a text (\<^verbatim>\<open>ValueError\<close> or \<^verbatim>\<open>ValidationError\<close>, as the field has it),
  which nothing in this file catches; and the refusal of a permission check.
\<close>

datatype error = Http404 | InvalidKey | PermissionDenied

section \<open>The ORM operations the views use\<close>

text \<open>
  The query parameters are the map that \<^verbatim>\<open>query_params.get\<close> reads: \<^verbatim>\<open>get(name)\<close> is
  \<^verbatim>\<open>None\<close> or a string, and \<^verbatim>\<open>if value:\<close> holds for a string that is not empty.
\<close>

definition truthy :: "string option \<Rightarrow> bool" where
  "truthy v = (case v of None \<Rightarrow> False | Some s \<Rightarrow> s \<noteq> [])"

text \<open>Sequencing of steps that may raise: the first error ends the computation.\<close>

definition and_then :: "error + 'a \<Rightarrow> ('a \<Rightarrow> error + 'b) \<Rightarrow> error + 'b" where
  "and_then r f = (case r of Inl e \<Rightarrow> Inl e | Inr x \<Rightarrow> f x)"

text \<open>
  The value of a lookup by key, as the key field prepares it: a text becomes the key it
  spells, or the field raises; \<^verbatim>\<open>None\<close> stays \<^verbatim>\<open>None\<close>, the key of no row.
\<close>

definition to_python :: "(string \<Rightarrow> ident option) \<Rightarrow> string option \<Rightarrow> error + ident option" where
  "to_python field v =
     (case v of
        None \<Rightarrow> Inr None
      | Some s \<Rightarrow> (case field s of None \<Rightarrow> Inl InvalidKey | Some k \<Rightarrow> Inr (Some k)))"

text \<open>
  \<^verbatim>\<open>get_object_or_404(Model, id=v)\<close>, from \<^verbatim>\<open>django.shortcuts\<close>: the row whose primary key
  is the key that \<open>v\<close> spells, or \<^verbatim>\<open>Http404\<close> when there is none. Only the absence of the
  row becomes \<^verbatim>\<open>Http404\<close>: the exception of the key field passes through. A primary key
  identifies at most one row, so the first match is the match.
\<close>

definition get_object_or_404 ::
  "(string \<Rightarrow> ident option) \<Rightarrow> ('r \<Rightarrow> ident) \<Rightarrow> 'r list \<Rightarrow> string option \<Rightarrow> error + 'r" where
  "get_object_or_404 field pk table v =
     and_then (to_python field v)
       (\<lambda>k. case find (\<lambda>r. Some (pk r) = k) table of
               None \<Rightarrow> Inl Http404
             | Some r \<Rightarrow> Inr r)"

text \<open>
  \<^verbatim>\<open>filter\<close> on a field of a many-to-many relation is an inner join: the result has one
  row for every related object that satisfies the condition, so an asset related to
  several matching objects is listed several times.
\<close>

definition filter_related :: "('a \<Rightarrow> 'r list) \<Rightarrow> ('r \<Rightarrow> bool) \<Rightarrow> 'a list \<Rightarrow> 'a list" where
  "filter_related rel p queryset =
     concat (map (\<lambda>a. map (\<lambda>_. a) (filter p (rel a))) queryset)"

text \<open>The rows of the node table that an asset is attached to: the join behind \<^verbatim>\<open>nodes__key\<close>.\<close>

definition asset_nodes :: "database \<Rightarrow> asset \<Rightarrow> node list" where
  "asset_nodes db a = concat (map (\<lambda>i. filter (\<lambda>n. n_id n = i) (nodes db)) (a_nodes a))"

section \<open>AssetViewSet.get_queryset\<close>

text \<open>
  \<^verbatim>\<open>super().get_queryset()\<close> evaluates the class attribute
  \<^verbatim>\<open>queryset = Asset.objects.all()\<close>: every asset.
\<close>

definition super_get_queryset :: "database \<Rightarrow> asset list" where
  "super_get_queryset db = assets db"

text \<open>
  Lines 50-51: \<^verbatim>\<open>if cluster_id: queryset = queryset.filter(cluster__id=cluster_id)\<close>. The
  key field of the cluster prepares the text when the filter is built.
\<close>

definition filter_cluster_id ::
  "database \<Rightarrow> string option \<Rightarrow> asset list \<Rightarrow> error + asset list" where
  "filter_cluster_id db cluster_id queryset =
     (if truthy cluster_id
      then and_then (to_python (to_key db Cluster) cluster_id)
             (\<lambda>k. Inr (filter (\<lambda>a. Some (a_cluster a) = k) queryset))
      else Inr queryset)"

text \<open>Lines 52-53: \<^verbatim>\<open>if asset_group_id: queryset = queryset.filter(groups__id=asset_group_id)\<close>.\<close>

definition filter_asset_group_id ::
  "database \<Rightarrow> string option \<Rightarrow> asset list \<Rightarrow> error + asset list" where
  "filter_asset_group_id db asset_group_id queryset =
     (if truthy asset_group_id
      then and_then (to_python (to_key db AssetGroup) asset_group_id)
             (\<lambda>k. Inr (filter_related a_groups (\<lambda>g. Some g = k) queryset))
      else Inr queryset)"

text \<open>
  Lines 54-58: the admin user is looked up (or 404); an asset stays when its cluster is one
  of the admin user's clusters or the asset itself is one of the admin user's assets.
\<close>

definition filter_admin_user_id ::
  "database \<Rightarrow> string option \<Rightarrow> asset list \<Rightarrow> error + asset list" where
  "filter_admin_user_id db admin_user_id queryset =
     (if truthy admin_user_id
      then and_then
             (get_object_or_404 (to_key db AdminUser) au_id (admin_users db) admin_user_id)
             (\<lambda>admin_user.
                let assets_direct = au_asset_set admin_user;
                    clusters = au_cluster_set admin_user
                in Inr (filter (\<lambda>a. a_cluster a \<in> set clusters
                                     \<or> a_id a \<in> set assets_direct) queryset))
      else Inr queryset)"

text \<open>Lines 59-62: the system user is looked up (or 404); \<^verbatim>\<open>filter(cluster__in=clusters)\<close>.\<close>

definition filter_system_user_id ::
  "database \<Rightarrow> string option \<Rightarrow> asset list \<Rightarrow> error + asset list" where
  "filter_system_user_id db system_user_id queryset =
     (if truthy system_user_id
      then and_then
             (get_object_or_404 (to_key db SystemUser) su_id (system_users db) system_user_id)
             (\<lambda>system_user.
                let clusters = su_get_clusters system_user
                in Inr (filter (\<lambda>a. a_cluster a \<in> set clusters) queryset))
      else Inr queryset)"

text \<open>
  Lines 63-65: the node is looked up (or 404);
  \<^verbatim>\<open>filter(nodes__key__startswith=node.key)\<close> joins the assets with their nodes.
\<close>

definition filter_node_id ::
  "database \<Rightarrow> string option \<Rightarrow> asset list \<Rightarrow> error + asset list" where
  "filter_node_id db node_id queryset =
     (if truthy node_id
      then and_then (get_object_or_404 (to_key db Node) n_id (nodes db) node_id)
             (\<lambda>node.
                Inr (filter_related (asset_nodes db)
                       (\<lambda>n. prefix (n_key node) (n_key n)) queryset))
      else Inr queryset)"

definition get_queryset :: "database \<Rightarrow> (string \<rightharpoonup> string) \<Rightarrow> error + asset list" where
  "get_queryset db query_params =
    (let queryset = super_get_queryset db;
         cluster_id = query_params ''cluster_id'';
         asset_group_id = query_params ''asset_group_id'';
         admin_user_id = query_params ''admin_user_id'';
         system_user_id = query_params ''system_user_id'';
         node_id = query_params ''node_id''
     in and_then (filter_cluster_id db cluster_id queryset) (\<lambda>queryset.
        and_then (filter_asset_group_id db asset_group_id queryset) (\<lambda>queryset.
        and_then (filter_admin_user_id db admin_user_id queryset) (\<lambda>queryset.
        and_then (filter_system_user_id db system_user_id queryset) (\<lambda>queryset.
        filter_node_id db node_id queryset)))))"

text \<open>The five query parameters that \<^verbatim>\<open>get_queryset\<close> reads.\<close>

definition filter_params :: "string list" where
  "filter_params =
     [''cluster_id'', ''asset_group_id'', ''admin_user_id'', ''system_user_id'', ''node_id'']"

text \<open>
  The block of \<^verbatim>\<open>get_queryset\<close> that belongs to a parameter name, and the blocks of a list
  of names applied one after the other, to compare the source's order with any other.
\<close>

definition apply_filter ::
  "database \<Rightarrow> (string \<rightharpoonup> string) \<Rightarrow> string \<Rightarrow> asset list \<Rightarrow> error + asset list" where
  "apply_filter db query_params k queryset =
     (if k = ''cluster_id'' then filter_cluster_id db (query_params k) queryset
      else if k = ''asset_group_id'' then filter_asset_group_id db (query_params k) queryset
      else if k = ''admin_user_id'' then filter_admin_user_id db (query_params k) queryset
      else if k = ''system_user_id'' then filter_system_user_id db (query_params k) queryset
      else if k = ''node_id'' then filter_node_id db (query_params k) queryset
      else Inr queryset)"

fun run_filters ::
  "database \<Rightarrow> (string \<rightharpoonup> string) \<Rightarrow> string list \<Rightarrow> asset list \<Rightarrow> error + asset list" where
  "run_filters db query_params [] queryset = Inr queryset"
| "run_filters db query_params (k # ks) queryset =
     and_then (apply_filter db query_params k queryset) (run_filters db query_params ks)"

text \<open>
  An asset is kept by a step when the step, run on a queryset holding that asset alone,
  returns it. A step treats every queryset alike when whether it raises does not depend on
  the queryset and the assets it returns are the kept ones.
\<close>

definition kept :: "(asset list \<Rightarrow> error + asset list) \<Rightarrow> asset \<Rightarrow> bool" where
  "kept step a = (case step [a] of Inl e \<Rightarrow> False | Inr r \<Rightarrow> r \<noteq> [])"

definition uniform :: "(asset list \<Rightarrow> error + asset list) \<Rightarrow> bool" where
  "uniform step \<longleftrightarrow>
     (\<forall>qs e. step qs = Inl e \<longrightarrow> (\<forall>qs'. step qs' = Inl e)) \<and>
     (\<forall>qs r. step qs = Inr r \<longrightarrow> set r = {a \<in> set qs. kept step a})"

text \<open>
  The model whose key each of the five parameters spells, and the requests in which every
  parameter that is not empty is a text that the key field of its model accepts.
\<close>

definition param_models :: "(string \<times> model) list" where
  "param_models =
     [(''cluster_id'', Cluster), (''asset_group_id'', AssetGroup), (''admin_user_id'', AdminUser),
      (''system_user_id'', SystemUser), (''node_id'', Node)]"

definition well_formed :: "database \<Rightarrow> (string \<rightharpoonup> string) \<Rightarrow> bool" where
  "well_formed db query_params =
     list_all
       (\<lambda>(k, m). case query_params k of
                   None \<Rightarrow> True
                 | Some s \<Rightarrow> s = [] \<or> to_key db m s \<noteq> None)
       param_models"

section \<open>UserAssetListView.get_queryset\<close>

text \<open>
  Lines 74-79. \<^verbatim>\<open>get_user_granted_assets\<close> comes from the permission application and is a
  parameter here.
\<close>

definition user_get_queryset :: "('u \<Rightarrow> asset list) \<Rightarrow> database \<Rightarrow> 'u \<Rightarrow> asset list" where
  "user_get_queryset get_user_granted_assets db request_user =
     (let assets_granted = get_user_granted_assets request_user
      in filter (\<lambda>a. a_id a \<in> set (map a_id assets_granted)) (assets db))"

section \<open>The two action endpoints\<close>

text \<open>
  The two background operations, \<^verbatim>\<open>update_asset_hardware_info_manual\<close> and
  \<^verbatim>\<open>test_asset_connectability_manual\<close>, are imported from \<^verbatim>\<open>..tasks\<close>; what they
  return is a parameter of the views, and every call of one is recorded in a log that the
  views thread through, so that a theorem can say how often an operation was started.
\<close>

datatype task_call =
    UpdateAssetHardwareInfoManual asset
  | TestAssetConnectabilityManual asset

text \<open>
  The body of a \<^verbatim>\<open>Response\<close>: a dictionary of strings, or the list of values of the
  \<^verbatim>\<open>dark\<close> dictionary, each value as its text. A \<^verbatim>\<open>Response\<close> built without a status has status 200.
\<close>

datatype data = Fields "(string \<times> string) list" | Values "string list"

record response =
  data :: data
  status :: nat

definition Response :: "data \<Rightarrow> response" where
  "Response d = \<lparr>data = d, status = 200\<rparr>"

text \<open>
  The summary of a run: a dictionary whose entry \<^verbatim>\<open>dark\<close>, when there is one, is itself a
  dictionary, from hosts to what went wrong there.
\<close>

type_synonym summary = "string \<rightharpoonup> (string \<times> string) list"

text \<open>
  AssetRefreshHardwareApi.retrieve, lines 99-107. The summary is the second component of
  what the operation returns. The debug line written to the logger is left out.
\<close>

definition refresh_hardware_retrieve ::
  "(asset \<Rightarrow> 'r \<times> summary) \<Rightarrow> database \<Rightarrow> (string \<rightharpoonup> string) \<Rightarrow> task_call list
     \<Rightarrow> (error + response) \<times> task_call list" where
  "refresh_hardware_retrieve update_asset_hardware_info_manual db kwargs calls =
     (let asset_id = kwargs ''pk''
      in case get_object_or_404 (to_key db Asset) a_id (assets db) asset_id of
           Inl e \<Rightarrow> (Inl e, calls)
         | Inr asset \<Rightarrow>
             let summary = snd (update_asset_hardware_info_manual asset);
                 calls = calls @ [UpdateAssetHardwareInfoManual asset]
             in (case summary ''dark'' of
                   None \<Rightarrow> (Inr (Response (Fields [(''msg'', ''ok'')])), calls)
                 | Some dark \<Rightarrow>
                     if dark \<noteq> []
                     then (Inr \<lparr>data = Values (map snd dark), status = 501\<rparr>, calls)
                     else (Inr (Response (Fields [(''msg'', ''ok'')])), calls)))"

text \<open>AssetAdminUserTestApi.retrieve, lines 117-124.\<close>

definition admin_user_test_retrieve ::
  "(asset \<Rightarrow> bool \<times> string) \<Rightarrow> database \<Rightarrow> (string \<rightharpoonup> string) \<Rightarrow> task_call list
     \<Rightarrow> (error + response) \<times> task_call list" where
  "admin_user_test_retrieve test_asset_connectability_manual db kwargs calls =
     (let asset_id = kwargs ''pk''
      in case get_object_or_404 (to_key db Asset) a_id (assets db) asset_id of
           Inl e \<Rightarrow> (Inl e, calls)
         | Inr asset \<Rightarrow>
             let (ok, msg) = test_asset_connectability_manual asset;
                 calls = calls @ [TestAssetConnectabilityManual asset]
             in if ok
                then (Inr (Response (Fields [(''msg'', ''pong'')])), calls)
                else (Inr \<lparr>data = Fields [(''error'', msg)], status = 502\<rparr>, calls))"

section \<open>Permissions\<close>

text \<open>
  Modelled from the spec: the permission classes \<^verbatim>\<open>IsValidUser\<close>, \<^verbatim>\<open>IsSuperUser\<close> and
  \<^verbatim>\<open>IsSuperUserOrAppUser\<close> are imported from \<^verbatim>\<open>..hands\<close> and are not in this file. The
  spec speaks of permission checks and says no more of them, so each class is read as its
  name says: a valid user, a superuser, a superuser or an app user.
\<close>

record user =
  is_valid :: bool
  is_superuser :: bool
  is_app_user :: bool

datatype permission = IsValidUser | IsSuperUser | IsSuperUserOrAppUser

fun has_permission :: "permission \<Rightarrow> user \<Rightarrow> bool" where
  "has_permission IsValidUser u = is_valid u"
| "has_permission IsSuperUser u = is_superuser u"
| "has_permission IsSuperUserOrAppUser u = (is_superuser u \<or> is_app_user u)"

datatype endpoint =
    AssetViewSet
  | UserAssetListView
  | AssetListUpdateApi
  | AssetRefreshHardwareApi
  | AssetAdminUserTestApi

text \<open>The \<^verbatim>\<open>permission_classes\<close> attribute of each view: lines 40, 72, 88, 97 and 115.\<close>

fun permission_classes :: "endpoint \<Rightarrow> permission list" where
  "permission_classes AssetViewSet = [IsSuperUserOrAppUser]"
| "permission_classes UserAssetListView = [IsValidUser]"
| "permission_classes AssetListUpdateApi = [IsSuperUser]"
| "permission_classes AssetRefreshHardwareApi = [IsSuperUser]"
| "permission_classes AssetAdminUserTestApi = [IsSuperUser]"

text \<open>
  Modelled from the spec: the dispatch of a request is the framework's and is not in this
  file. The spec puts the permission checks first among what the views do: the handler
  runs when every class of \<^verbatim>\<open>permission_classes\<close> grants the request, and otherwise the
  request is refused and the state is the one before.
\<close>

definition check_permissions :: "endpoint \<Rightarrow> user \<Rightarrow> bool" where
  "check_permissions view u = list_all (\<lambda>p. has_permission p u) (permission_classes view)"

definition dispatch ::
  "endpoint \<Rightarrow> user \<Rightarrow> ('s \<Rightarrow> (error + 'a) \<times> 's) \<Rightarrow> 's \<Rightarrow> (error + 'a) \<times> 's" where
  "dispatch view u handler s =
     (if check_permissions view u then handler s else (Inl PermissionDenied, s))"

text \<open>
  The five endpoints: the handler of each view behind its permission check. The handler of
  the bulk update comes from \<^verbatim>\<open>ListBulkCreateUpdateDestroyAPIView\<close> and is a parameter.
\<close>

definition asset_view_set ::
  "database \<Rightarrow> user \<Rightarrow> (string \<rightharpoonup> string) \<Rightarrow> task_call list
     \<Rightarrow> (error + asset list) \<times> task_call list" where
  "asset_view_set db u query_params =
     dispatch AssetViewSet u (\<lambda>calls. (get_queryset db query_params, calls))"

definition user_asset_list_view ::
  "(user \<Rightarrow> asset list) \<Rightarrow> database \<Rightarrow> user \<Rightarrow> task_call list
     \<Rightarrow> (error + asset list) \<times> task_call list" where
  "user_asset_list_view get_user_granted_assets db u =
     dispatch UserAssetListView u
       (\<lambda>calls. (Inr (user_get_queryset get_user_granted_assets db u), calls))"

definition asset_list_update_api ::
  "('s \<Rightarrow> (error + 'a) \<times> 's) \<Rightarrow> user \<Rightarrow> 's \<Rightarrow> (error + 'a) \<times> 's" where
  "asset_list_update_api bulk_update u = dispatch AssetListUpdateApi u bulk_update"

definition asset_refresh_hardware_api ::
  "(asset \<Rightarrow> 'r \<times> summary) \<Rightarrow> database \<Rightarrow> user \<Rightarrow> (string \<rightharpoonup> string) \<Rightarrow> task_call list
     \<Rightarrow> (error + response) \<times> task_call list" where
  "asset_refresh_hardware_api update_asset_hardware_info_manual db u kwargs =
     dispatch AssetRefreshHardwareApi u
       (refresh_hardware_retrieve update_asset_hardware_info_manual db kwargs)"

definition asset_admin_user_test_api ::
  "(asset \<Rightarrow> bool \<times> string) \<Rightarrow> database \<Rightarrow> user \<Rightarrow> (string \<rightharpoonup> string) \<Rightarrow> task_call list
     \<Rightarrow> (error + response) \<times> task_call list" where
  "asset_admin_user_test_api test_asset_connectability_manual db u kwargs =
     dispatch AssetAdminUserTestApi u
       (admin_user_test_retrieve test_asset_connectability_manual db kwargs)"

section \<open>Example data\<close>

definition web1 :: asset where
  "web1 = \<lparr>a_id = ''a1'', a_cluster = ''c1'', a_groups = [''g1''], a_nodes = [''n1'']\<rparr>"

definition web2 :: asset where
  "web2 = \<lparr>a_id = ''a2'', a_cluster = ''c2'', a_groups = [''g1'', ''g2''],
           a_nodes = [''n2'', ''n3'']\<rparr>"

definition sql3 :: asset where
  "sql3 = \<lparr>a_id = ''a3'', a_cluster = ''c3'', a_groups = [], a_nodes = [''n4'']\<rparr>"

definition ops_admin :: admin_user where
  "ops_admin = \<lparr>au_id = ''u1'', au_asset_set = [''a2''], au_cluster_set = [''c1'']\<rparr>"

definition deploy_user :: system_user where
  "deploy_user = \<lparr>su_id = ''s1'', su_get_clusters = [''c1'', ''c3'']\<rparr>"

definition root_node :: node where
  "root_node = \<lparr>n_id = ''n1'', n_key = ''0''\<rparr>"

definition web_node :: node where
  "web_node = \<lparr>n_id = ''n2'', n_key = ''0:1''\<rparr>"

definition web_child_node :: node where
  "web_child_node = \<lparr>n_id = ''n3'', n_key = ''0:1:0''\<rparr>"

definition db_node :: node where
  "db_node = \<lparr>n_id = ''n4'', n_key = ''0:2''\<rparr>"

text \<open>
  The key fields of the example: every text without a blank is a key, in that spelling;
  the empty text and a text with a blank are refused.
\<close>

definition slug_key :: "string \<Rightarrow> ident option" where
  "slug_key s = (if s = [] \<or> CHR '' '' \<in> set s then None else Some s)"

definition example_db :: database where
  "example_db =
     \<lparr>assets = [web1, web2, sql3],
      admin_users = [ops_admin],
      system_users = [deploy_user],
      nodes = [root_node, web_node, web_child_node, db_node],
      to_key = (\<lambda>m. slug_key)\<rparr>"

definition superuser :: user where
  "superuser = \<lparr>is_valid = True, is_superuser = True, is_app_user = False\<rparr>"

definition plain_user :: user where
  "plain_user = \<lparr>is_valid = True, is_superuser = False, is_app_user = False\<rparr>"

definition anonymous :: user where
  "anonymous = \<lparr>is_valid = False, is_superuser = False, is_app_user = False\<rparr>"

text \<open>Outcomes of the two background operations, for the examples.\<close>

definition probe_unreachable :: "asset \<Rightarrow> unit \<times> summary" where
  "probe_unreachable a = ((), [''contacted'' \<mapsto> [], ''dark'' \<mapsto> [(a_id a, ''timeout'')]])"

definition probe_ok :: "asset \<Rightarrow> unit \<times> summary" where
  "probe_ok a = ((), [''contacted'' \<mapsto> [(a_id a, ''ok'')], ''dark'' \<mapsto> []])"

definition ping_refused :: "asset \<Rightarrow> bool \<times> string" where
  "ping_refused a = (False, ''connection refused'')"

definition ping_ok :: "asset \<Rightarrow> bool \<times> string" where
  "ping_ok a = (True, ''ok'')"

section \<open>Auxiliary facts\<close>

lemma truthy_None [simp]: "\<not> truthy None"
  by (simp add: truthy_def)

lemma truthy_Some [simp]: "truthy (Some s) \<longleftrightarrow> s \<noteq> []"
  by (simp add: truthy_def)

lemma and_then_Inr: "and_then (Inr x) f = f x"
  by (simp add: and_then_def)

lemma and_then_Inl: "and_then (Inl e) f = Inl e"
  by (simp add: and_then_def)

lemma and_then_return: "and_then r Inr = r"
  by (simp add: and_then_def split: sum.splits)

lemma set_filter_related:
  "set (filter_related rel p queryset) = {a \<in> set queryset. \<exists>r \<in> set (rel a). p r}"
  by (auto simp: filter_related_def)

lemma filter_related_single:
  "filter_related rel p [a] \<noteq> [] \<longleftrightarrow> (\<exists>r \<in> set (rel a). p r)"
  by (auto simp: filter_related_def filter_empty_conv)

lemma find_Some_mem: "find P xs = Some x \<Longrightarrow> x \<in> set xs \<and> P x"
  by (induction xs) (auto split: if_splits)

lemma to_python_Inl: "to_python field v = Inl e \<Longrightarrow> e = InvalidKey"
  by (auto simp: to_python_def split: option.splits)

lemma to_python_Some:
  "to_python field (Some s) = Inr k \<longleftrightarrow> (\<exists>k'. field s = Some k' \<and> k = Some k')"
  by (auto simp: to_python_def split: option.splits)

lemma to_python_Some_Inl:
  "to_python field (Some s) = Inl e \<longleftrightarrow> field s = None \<and> e = InvalidKey"
  by (auto simp: to_python_def split: option.splits)

lemma get_object_or_404_Inr:
  "get_object_or_404 field pk table v = Inr r \<Longrightarrow>
     r \<in> set table \<and> to_python field v = Inr (Some (pk r))"
  by (cases "to_python field v")
     (auto simp: get_object_or_404_def and_then_def dest: find_Some_mem split: option.splits)

lemma get_object_or_404_missing:
  "to_python field v = Inr k \<Longrightarrow> \<forall>r \<in> set table. Some (pk r) \<noteq> k \<Longrightarrow>
     get_object_or_404 field pk table v = Inl Http404"
  by (auto simp: get_object_or_404_def and_then_def find_None_iff split: option.splits
      dest: find_Some_mem)

lemma get_object_or_404_refused:
  "to_python field v = Inl e \<Longrightarrow> get_object_or_404 field pk table v = Inl e"
  by (simp add: get_object_or_404_def and_then_def)

lemma get_object_or_404_Inl:
  "get_object_or_404 field pk table v = Inl e \<Longrightarrow>
     (e = InvalidKey \<and> to_python field v = Inl InvalidKey) \<or> e = Http404"
  by (cases "to_python field v")
     (auto simp: get_object_or_404_def and_then_def dest: to_python_Inl split: option.splits)

lemma uniform_skip: "uniform Inr"
  by (auto simp: uniform_def kept_def)

lemma uniform_filter: "uniform (\<lambda>qs. Inr (filter p qs))"
  by (auto simp: uniform_def kept_def)

lemma uniform_filter_related: "uniform (\<lambda>qs. Inr (filter_related rel p qs))"
  by (auto simp: uniform_def kept_def set_filter_related filter_related_single)

lemma uniform_raise: "uniform (\<lambda>qs. Inl e)"
  by (auto simp: uniform_def kept_def)

lemma uniform_and_then:
  assumes "\<And>x. uniform (f x)"
  shows "uniform (\<lambda>qs. and_then r (\<lambda>x. f x qs))"
proof (cases r)
  case (Inl e)
  then show ?thesis by (simp add: and_then_def uniform_raise)
next
  case (Inr x)
  then show ?thesis using assms [of x] by (simp add: and_then_def)
qed

lemma uniform_if: "uniform f \<Longrightarrow> uniform g \<Longrightarrow> uniform (if b then f else g)"
  by simp

lemma uniform_cluster_id: "uniform (filter_cluster_id db v)"
proof -
  have "filter_cluster_id db v =
      (if truthy v
       then (\<lambda>qs. and_then (to_python (to_key db Cluster) v)
                     (\<lambda>k. (\<lambda>qs. Inr (filter (\<lambda>a. Some (a_cluster a) = k) qs)) qs))
       else Inr)"
    by (rule ext) (simp add: filter_cluster_id_def)
  then show ?thesis
    by (simp only: uniform_if uniform_and_then uniform_filter uniform_skip)
qed

lemma uniform_asset_group_id: "uniform (filter_asset_group_id db v)"
proof -
  have "filter_asset_group_id db v =
      (if truthy v
       then (\<lambda>qs. and_then (to_python (to_key db AssetGroup) v)
                     (\<lambda>k. (\<lambda>qs. Inr (filter_related a_groups (\<lambda>g. Some g = k) qs)) qs))
       else Inr)"
    by (rule ext) (simp add: filter_asset_group_id_def)
  then show ?thesis
    by (simp only: uniform_if uniform_and_then uniform_filter_related uniform_skip)
qed

lemma uniform_admin_user_id: "uniform (filter_admin_user_id db v)"
proof -
  have "filter_admin_user_id db v =
      (if truthy v
       then (\<lambda>qs. and_then (get_object_or_404 (to_key db AdminUser) au_id (admin_users db) v)
                     (\<lambda>u. (\<lambda>qs. Inr (filter (\<lambda>a. a_cluster a \<in> set (au_cluster_set u)
                                               \<or> a_id a \<in> set (au_asset_set u)) qs)) qs))
       else Inr)"
    by (rule ext) (simp add: filter_admin_user_id_def Let_def)
  then show ?thesis
    by (simp only: uniform_if uniform_and_then uniform_filter uniform_skip)
qed

lemma uniform_system_user_id: "uniform (filter_system_user_id db v)"
proof -
  have "filter_system_user_id db v =
      (if truthy v
       then (\<lambda>qs. and_then (get_object_or_404 (to_key db SystemUser) su_id (system_users db) v)
                     (\<lambda>u. (\<lambda>qs. Inr (filter (\<lambda>a. a_cluster a \<in> set (su_get_clusters u)) qs)) qs))
       else Inr)"
    by (rule ext) (simp add: filter_system_user_id_def Let_def)
  then show ?thesis
    by (simp only: uniform_if uniform_and_then uniform_filter uniform_skip)
qed

lemma uniform_node_id: "uniform (filter_node_id db v)"
proof -
  have "filter_node_id db v =
      (if truthy v
       then (\<lambda>qs. and_then (get_object_or_404 (to_key db Node) n_id (nodes db) v)
                     (\<lambda>node. (\<lambda>qs. Inr (filter_related (asset_nodes db)
                                          (\<lambda>n. prefix (n_key node) (n_key n)) qs)) qs))
       else Inr)"
    by (rule ext) (simp add: filter_node_id_def)
  then show ?thesis
    by (simp only: uniform_if uniform_and_then uniform_filter_related uniform_skip)
qed

lemma uniform_apply_filter: "uniform (apply_filter db qp k)"
proof -
  have "apply_filter db qp k =
     (if k = ''cluster_id'' then filter_cluster_id db (qp k)
      else if k = ''asset_group_id'' then filter_asset_group_id db (qp k)
      else if k = ''admin_user_id'' then filter_admin_user_id db (qp k)
      else if k = ''system_user_id'' then filter_system_user_id db (qp k)
      else if k = ''node_id'' then filter_node_id db (qp k)
      else Inr)"
    by (rule ext) (simp add: apply_filter_def)
  then show ?thesis
    by (simp add: uniform_cluster_id uniform_asset_group_id uniform_admin_user_id
        uniform_system_user_id uniform_node_id uniform_skip)
qed

lemma apply_filter_Inl:
  "apply_filter db qp k qs = Inl e \<Longrightarrow> apply_filter db qp k qs' = Inl e"
  using uniform_apply_filter [of db qp k] unfolding uniform_def by blast

lemma apply_filter_set:
  "apply_filter db qp k qs = Inr r \<Longrightarrow> set r = {a \<in> set qs. kept (apply_filter db qp k) a}"
  using uniform_apply_filter [of db qp k] unfolding uniform_def by blast

lemma apply_filter_Inr_any:
  assumes "apply_filter db qp k qs = Inr r"
  shows "\<exists>r'. apply_filter db qp k qs' = Inr r'"
proof (cases "apply_filter db qp k qs'")
  case (Inl e)
  from apply_filter_Inl [OF Inl, of qs] assms show ?thesis by simp
next
  case (Inr r')
  then show ?thesis by blast
qed

lemma run_filters_set:
  "run_filters db qp ks qs = Inr r \<Longrightarrow>
     set r = {a \<in> set qs. \<forall>k \<in> set ks. kept (apply_filter db qp k) a}"
proof (induction ks arbitrary: qs)
  case Nil
  then show ?case by simp
next
  case (Cons k ks)
  then obtain r1 where r1: "apply_filter db qp k qs = Inr r1"
    and rest: "run_filters db qp ks r1 = Inr r"
    by (auto simp: and_then_def split: sum.splits)
  from Cons.IH [OF rest] apply_filter_set [OF r1] show ?case by auto
qed

lemma run_filters_Inl:
  "run_filters db qp ks qs = Inl e \<Longrightarrow> \<exists>k \<in> set ks. apply_filter db qp k [] = Inl e"
proof (induction ks arbitrary: qs)
  case Nil
  then show ?case by simp
next
  case (Cons k ks)
  show ?case
  proof (cases "apply_filter db qp k qs")
    case (Inl e')
    with Cons.prems have "e' = e" by (simp add: and_then_def)
    with apply_filter_Inl [OF Inl, of "[]"] show ?thesis by simp
  next
    case (Inr r1)
    with Cons.prems have "run_filters db qp ks r1 = Inl e" by (simp add: and_then_def)
    from Cons.IH [OF this] show ?thesis by simp
  qed
qed

lemma run_filters_Inr:
  "run_filters db qp ks qs = Inr r \<Longrightarrow> k \<in> set ks \<Longrightarrow> \<exists>r'. apply_filter db qp k qs' = Inr r'"
proof (induction ks arbitrary: qs r)
  case Nil
  then show ?case by simp
next
  case (Cons k' ks)
  from Cons.prems(1) obtain r1 where r1: "apply_filter db qp k' qs = Inr r1"
    and rest: "run_filters db qp ks r1 = Inr r"
    by (auto simp: and_then_def split: sum.splits)
  show ?case
  proof (cases "k = k'")
    case True
    with apply_filter_Inr_any [OF r1] show ?thesis by simp
  next
    case False
    with Cons.prems(2) have "k \<in> set ks" by simp
    from Cons.IH [OF rest this] show ?thesis .
  qed
qed

lemma run_filters_returns_iff:
  "(\<exists>r. run_filters db qp ks qs = Inr r) \<longleftrightarrow>
     (\<forall>k \<in> set ks. \<exists>r. apply_filter db qp k [] = Inr r)"
proof
  assume "\<exists>r. run_filters db qp ks qs = Inr r"
  then show "\<forall>k \<in> set ks. \<exists>r. apply_filter db qp k [] = Inr r"
    using run_filters_Inr by blast
next
  assume all: "\<forall>k \<in> set ks. \<exists>r. apply_filter db qp k [] = Inr r"
  show "\<exists>r. run_filters db qp ks qs = Inr r"
  proof (cases "run_filters db qp ks qs")
    case (Inl e)
    from run_filters_Inl [OF Inl] all show ?thesis by auto
  next
    case (Inr r)
    then show ?thesis by blast
  qed
qed

lemma get_queryset_run_filters:
  "get_queryset db qp = run_filters db qp filter_params (super_get_queryset db)"
  by (simp add: get_queryset_def filter_params_def apply_filter_def and_then_def
      split: sum.splits)

lemma get_queryset_set:
  "get_queryset db qp = Inr r \<Longrightarrow>
     set r = {a \<in> set (assets db). \<forall>k \<in> set filter_params. kept (apply_filter db qp k) a}"
  using run_filters_set [of db qp filter_params "super_get_queryset db" r]
  by (simp add: get_queryset_run_filters super_get_queryset_def)

lemma get_queryset_Inl:
  "get_queryset db qp = Inl e \<Longrightarrow> \<exists>k \<in> set filter_params. apply_filter db qp k [] = Inl e"
  unfolding get_queryset_run_filters by (rule run_filters_Inl)

lemma get_queryset_returns_iff:
  "(\<exists>r. get_queryset db qp = Inr r) \<longleftrightarrow>
     (\<forall>k \<in> set filter_params. \<exists>r. apply_filter db qp k [] = Inr r)"
  unfolding get_queryset_run_filters by (rule run_filters_returns_iff)

lemma kept_cluster_id:
  "kept (apply_filter db qp ''cluster_id'') a \<longleftrightarrow>
     (truthy (qp ''cluster_id'') \<longrightarrow>
        to_python (to_key db Cluster) (qp ''cluster_id'') = Inr (Some (a_cluster a)))"
  by (cases "to_python (to_key db Cluster) (qp ''cluster_id'')")
     (auto simp: kept_def apply_filter_def filter_cluster_id_def and_then_def)

lemma kept_asset_group_id:
  "kept (apply_filter db qp ''asset_group_id'') a \<longleftrightarrow>
     (truthy (qp ''asset_group_id'') \<longrightarrow>
        (\<exists>g \<in> set (a_groups a).
           to_python (to_key db AssetGroup) (qp ''asset_group_id'') = Inr (Some g)))"
  by (cases "to_python (to_key db AssetGroup) (qp ''asset_group_id'')")
     (auto simp: kept_def apply_filter_def filter_asset_group_id_def and_then_def
        filter_related_single)

lemma kept_admin_user_id:
  "kept (apply_filter db qp ''admin_user_id'') a \<longleftrightarrow>
     (truthy (qp ''admin_user_id'') \<longrightarrow>
        (\<exists>u. get_object_or_404 (to_key db AdminUser) au_id (admin_users db)
                (qp ''admin_user_id'') = Inr u
           \<and> (a_cluster a \<in> set (au_cluster_set u) \<or> a_id a \<in> set (au_asset_set u))))"
  by (cases "get_object_or_404 (to_key db AdminUser) au_id (admin_users db) (qp ''admin_user_id'')")
     (simp_all add: kept_def apply_filter_def filter_admin_user_id_def and_then_def Let_def)

lemma kept_system_user_id:
  "kept (apply_filter db qp ''system_user_id'') a \<longleftrightarrow>
     (truthy (qp ''system_user_id'') \<longrightarrow>
        (\<exists>u. get_object_or_404 (to_key db SystemUser) su_id (system_users db)
                (qp ''system_user_id'') = Inr u
           \<and> a_cluster a \<in> set (su_get_clusters u)))"
  by (cases "get_object_or_404 (to_key db SystemUser) su_id (system_users db)
               (qp ''system_user_id'')")
     (simp_all add: kept_def apply_filter_def filter_system_user_id_def and_then_def Let_def)

lemma kept_node_id:
  "kept (apply_filter db qp ''node_id'') a \<longleftrightarrow>
     (truthy (qp ''node_id'') \<longrightarrow>
        (\<exists>node. get_object_or_404 (to_key db Node) n_id (nodes db) (qp ''node_id'') = Inr node
           \<and> (\<exists>n \<in> set (asset_nodes db a). prefix (n_key node) (n_key n))))"
  by (cases "get_object_or_404 (to_key db Node) n_id (nodes db) (qp ''node_id'')")
     (simp_all add: kept_def apply_filter_def filter_node_id_def and_then_def
        filter_related_single)

lemma ball_filter_params:
  "(\<forall>k \<in> set filter_params. P k) \<longleftrightarrow>
     P ''cluster_id'' \<and> P ''asset_group_id'' \<and> P ''admin_user_id'' \<and> P ''system_user_id''
       \<and> P ''node_id''"
  by (simp add: filter_params_def)

lemma filter_params_cases:
  "k \<in> set filter_params \<longleftrightarrow>
     k = ''cluster_id'' \<or> k = ''asset_group_id'' \<or> k = ''admin_user_id''
       \<or> k = ''system_user_id'' \<or> k = ''node_id''"
  unfolding filter_params_def by (simp only: set_simps insert_iff empty_iff simp_thms)

lemma filter_params_mem [simp]:
  "''cluster_id'' \<in> set filter_params" "''asset_group_id'' \<in> set filter_params"
  "''admin_user_id'' \<in> set filter_params" "''system_user_id'' \<in> set filter_params"
  "''node_id'' \<in> set filter_params"
  by (simp_all add: filter_params_def)

lemma filter_cluster_id_None: "filter_cluster_id db None qs = Inr qs"
  by (simp add: filter_cluster_id_def)

lemma filter_asset_group_id_None: "filter_asset_group_id db None qs = Inr qs"
  by (simp add: filter_asset_group_id_def)

lemma filter_admin_user_id_None: "filter_admin_user_id db None qs = Inr qs"
  by (simp add: filter_admin_user_id_def)

lemma filter_system_user_id_None: "filter_system_user_id db None qs = Inr qs"
  by (simp add: filter_system_user_id_def)

lemma filter_node_id_None: "filter_node_id db None qs = Inr qs"
  by (simp add: filter_node_id_def)

lemmas filter_None = filter_cluster_id_None filter_asset_group_id_None
  filter_admin_user_id_None filter_system_user_id_None filter_node_id_None

lemma filter_None_fun:
  "filter_cluster_id db None = Inr" "filter_asset_group_id db None = Inr"
  "filter_admin_user_id db None = Inr" "filter_system_user_id db None = Inr"
  "filter_node_id db None = Inr"
  by (rule ext, simp add: filter_None)+

lemma apply_filter_without:
  "apply_filter db (qp(k0 := None)) k qs =
     (if k = k0 then Inr qs else apply_filter db qp k qs)"
  by (simp add: apply_filter_def filter_None)

lemma get_queryset_without:
  assumes "get_queryset db qp = Inr r"
  shows "\<exists>r'. get_queryset db (qp(k0 := None)) = Inr r'
           \<and> set r = {a \<in> set r'. kept (apply_filter db qp k0) a
                                  \<or> k0 \<notin> set filter_params}"
proof -
  have "\<exists>r'. apply_filter db (qp(k0 := None)) k [] = Inr r'" if "k \<in> set filter_params" for k
  proof (cases "k = k0")
    case True
    then show ?thesis by (simp add: apply_filter_without)
  next
    case False
    from assms that have "\<exists>r'. apply_filter db qp k [] = Inr r'"
      using get_queryset_returns_iff [of db qp] by blast
    with False show ?thesis by (simp add: apply_filter_without)
  qed
  then obtain r' where r': "get_queryset db (qp(k0 := None)) = Inr r'"
    using get_queryset_returns_iff [of db "qp(k0 := None)"] by blast
  have "kept (apply_filter db (qp(k0 := None)) k) a
          = (if k = k0 then True else kept (apply_filter db qp k) a)" for k a
    by (simp add: kept_def apply_filter_without)
  then have "set r = {a \<in> set r'. kept (apply_filter db qp k0) a \<or> k0 \<notin> set filter_params}"
    unfolding get_queryset_set [OF assms] get_queryset_set [OF r'] by auto
  with r' show ?thesis by simp
qed

lemma found_spelling:
  assumes "get_object_or_404 field pk table v = Inr x" and "field [] \<noteq> Some (pk x)"
  shows "truthy v"
proof (cases v)
  case None
  with get_object_or_404_Inr [OF assms(1)] show ?thesis by (simp add: to_python_def)
next
  case (Some s)
  with get_object_or_404_Inr [OF assms(1)] have "field s = Some (pk x)"
    by (simp add: to_python_Some)
  with assms(2) have "s \<noteq> []" by auto
  with Some show ?thesis by simp
qed

lemma set_asset_nodes:
  "set (asset_nodes db a) = {n \<in> set (nodes db). n_id n \<in> set (a_nodes a)}"
  by (auto simp: asset_nodes_def)

lemma get_queryset_alone:
  assumes "k \<in> set filter_params"
  shows "get_queryset db (qp |` {k}) = apply_filter db qp k (assets db)"
  using assms unfolding filter_params_cases
proof (elim disjE)
  assume "k = ''cluster_id''"
  then show ?thesis
    by (simp add: get_queryset_def apply_filter_def restrict_map_def filter_None filter_None_fun
        and_then_Inr and_then_return super_get_queryset_def)
next
  assume "k = ''asset_group_id''"
  then show ?thesis
    by (simp add: get_queryset_def apply_filter_def restrict_map_def filter_None filter_None_fun
        and_then_Inr and_then_return super_get_queryset_def)
next
  assume "k = ''admin_user_id''"
  then show ?thesis
    by (simp add: get_queryset_def apply_filter_def restrict_map_def filter_None filter_None_fun
        and_then_Inr and_then_return super_get_queryset_def)
next
  assume "k = ''system_user_id''"
  then show ?thesis
    by (simp add: get_queryset_def apply_filter_def restrict_map_def filter_None filter_None_fun
        and_then_Inr and_then_return super_get_queryset_def)
next
  assume "k = ''node_id''"
  then show ?thesis
    by (simp add: get_queryset_def apply_filter_def restrict_map_def filter_None filter_None_fun
        and_then_Inr and_then_return super_get_queryset_def)
qed

lemma run_filters_order:
  assumes "set ks = set ks'"
  shows "map_sum (\<lambda>e. ()) set (run_filters db qp ks qs)
           = map_sum (\<lambda>e. ()) set (run_filters db qp ks' qs)"
proof (cases "run_filters db qp ks qs")
  case (Inl e)
  then have "\<not> (\<exists>r. run_filters db qp ks' qs = Inr r)"
    using run_filters_returns_iff [of db qp ks qs] run_filters_returns_iff [of db qp ks' qs] assms
    by simp
  then obtain e' where "run_filters db qp ks' qs = Inl e'"
    by (cases "run_filters db qp ks' qs") auto
  with Inl show ?thesis by simp
next
  case (Inr r)
  then have "\<exists>r'. run_filters db qp ks' qs = Inr r'"
    using run_filters_returns_iff [of db qp ks qs] run_filters_returns_iff [of db qp ks' qs] assms
    by auto
  then obtain r' where r': "run_filters db qp ks' qs = Inr r'" ..
  from run_filters_set [OF Inr] run_filters_set [OF r'] assms have "set r = set r'"
    by simp
  with Inr r' show ?thesis by simp
qed

lemma well_formed_iff:
  "well_formed db qp \<longleftrightarrow>
     (\<forall>(k, m) \<in> set param_models. truthy (qp k) \<longrightarrow> to_python (to_key db m) (qp k) \<noteq> Inl InvalidKey)"
  by (auto simp: well_formed_def list_all_iff to_python_def split: option.splits)

lemma well_formed_Inl:
  assumes "well_formed db qp" and "apply_filter db qp k qs = Inl e"
  shows "e = Http404"
proof -
  from assms(1) have wf:
    "truthy (qp ''cluster_id'') \<longrightarrow>
       to_python (to_key db Cluster) (qp ''cluster_id'') \<noteq> Inl InvalidKey"
    "truthy (qp ''asset_group_id'') \<longrightarrow>
       to_python (to_key db AssetGroup) (qp ''asset_group_id'') \<noteq> Inl InvalidKey"
    "truthy (qp ''admin_user_id'') \<longrightarrow>
       to_python (to_key db AdminUser) (qp ''admin_user_id'') \<noteq> Inl InvalidKey"
    "truthy (qp ''system_user_id'') \<longrightarrow>
       to_python (to_key db SystemUser) (qp ''system_user_id'') \<noteq> Inl InvalidKey"
    "truthy (qp ''node_id'') \<longrightarrow>
       to_python (to_key db Node) (qp ''node_id'') \<noteq> Inl InvalidKey"
    by (simp_all add: well_formed_iff param_models_def)
  consider "k = ''cluster_id''" | "k \<noteq> ''cluster_id''" "k = ''asset_group_id''"
    | "k \<noteq> ''cluster_id''" "k \<noteq> ''asset_group_id''"
    by blast
  then show ?thesis
  proof cases
    case 1
    with assms(2) wf(1) show ?thesis
      by (auto simp: apply_filter_def filter_cluster_id_def and_then_def
          dest: to_python_Inl split: if_splits sum.splits)
  next
    case 2
    with assms(2) wf(2) show ?thesis
      by (auto simp: apply_filter_def filter_asset_group_id_def and_then_def
          dest: to_python_Inl split: if_splits sum.splits)
  next
    case 3
    with assms(2) wf(3,4,5) show ?thesis
      by (auto simp: apply_filter_def filter_admin_user_id_def filter_system_user_id_def
          filter_node_id_def and_then_def Let_def
          dest: get_object_or_404_Inl split: if_splits sum.splits)
  qed
qed

lemma run_filters_order_well_formed:
  assumes "set ks = set ks'" and "well_formed db qp"
  shows "map_sum id set (run_filters db qp ks qs) = map_sum id set (run_filters db qp ks' qs)"
proof -
  have e: "e = Http404" if "run_filters db qp l qs = Inl e" for l e
    using run_filters_Inl [OF that] well_formed_Inl [OF assms(2)] by blast
  from run_filters_order [OF assms(1), of db qp qs] show ?thesis
    by (cases "run_filters db qp ks qs"; cases "run_filters db qp ks' qs") (auto dest: e)
qed

lemmas example_defs = example_db_def web1_def web2_def sql3_def ops_admin_def deploy_user_def
  root_node_def web_node_def web_child_node_def db_node_def slug_key_def

lemmas code_defs = get_queryset_def filter_cluster_id_def filter_asset_group_id_def
  filter_admin_user_id_def filter_system_user_id_def filter_node_id_def and_then_def
  get_object_or_404_def to_python_def filter_related_def asset_nodes_def super_get_queryset_def

section \<open>Properties of get_queryset\<close>

text \<open>
  C1, as the code has it. A block of \<^verbatim>\<open>get_queryset\<close> runs when the value of its parameter
  is truthy, that is, present and not the empty string. When the request raises nothing, the
  assets returned are exactly the assets that satisfy the condition of every block whose
  parameter is truthy: the cluster id that the text spells for \<^verbatim>\<open>cluster_id\<close>, membership
  of the group that the text spells for
  \<^verbatim>\<open>asset_group_id\<close>, the clusters or the assets of the admin user for
  \<^verbatim>\<open>admin_user_id\<close>, the clusters of the system user for \<^verbatim>\<open>system_user_id\<close>, and a node
  whose key starts with the key of the node for \<^verbatim>\<open>node_id\<close>. A parameter that is absent or
  empty adds no condition, and nothing else is filtered.
\<close>

theorem get_queryset_filters_when_truthy:
  assumes "get_queryset db query_params = Inr r"
  shows "set r = {a \<in> set (assets db).
      (truthy (query_params ''cluster_id'') \<longrightarrow>
         to_python (to_key db Cluster) (query_params ''cluster_id'') = Inr (Some (a_cluster a))) \<and>
      (truthy (query_params ''asset_group_id'') \<longrightarrow>
         (\<exists>g \<in> set (a_groups a).
            to_python (to_key db AssetGroup) (query_params ''asset_group_id'') = Inr (Some g))) \<and>
      (truthy (query_params ''admin_user_id'') \<longrightarrow>
         (\<exists>u. get_object_or_404 (to_key db AdminUser) au_id (admin_users db) (query_params ''admin_user_id'') = Inr u
            \<and> (a_cluster a \<in> set (au_cluster_set u) \<or> a_id a \<in> set (au_asset_set u)))) \<and>
      (truthy (query_params ''system_user_id'') \<longrightarrow>
         (\<exists>u. get_object_or_404 (to_key db SystemUser) su_id (system_users db) (query_params ''system_user_id'') = Inr u
            \<and> a_cluster a \<in> set (su_get_clusters u))) \<and>
      (truthy (query_params ''node_id'') \<longrightarrow>
         (\<exists>node. get_object_or_404 (to_key db Node) n_id (nodes db) (query_params ''node_id'') = Inr node
            \<and> (\<exists>n \<in> set (asset_nodes db a). prefix (n_key node) (n_key n))))}"
  unfolding get_queryset_set [OF assms] ball_filter_params
    kept_cluster_id kept_asset_group_id kept_admin_user_id kept_system_user_id kept_node_id
  by (rule refl)

theorem get_queryset_filters_when_truthy_witness:
  "get_queryset example_db [''cluster_id'' \<mapsto> ''c1'', ''node_id'' \<mapsto> ''n1''] = Inr [web1]
   \<and> set [web1] = {a \<in> set (assets example_db).
         to_python (to_key example_db Cluster) (Some ''c1'') = Inr (Some (a_cluster a))
         \<and> (\<exists>n \<in> set (asset_nodes example_db a). prefix (n_key root_node) (n_key n))}"
proof -
  have h: "get_queryset example_db [''cluster_id'' \<mapsto> ''c1'', ''node_id'' \<mapsto> ''n1'']
             = Inr [web1]"
    by (simp add: code_defs example_defs)
  have n: "get_object_or_404 (to_key example_db Node) n_id (nodes example_db) (Some ''n1'') = Inr root_node"
    by (simp add: get_object_or_404_def to_python_def and_then_def example_defs)
  show ?thesis
    using h get_queryset_filters_when_truthy [OF h] by (simp add: n)
qed

text \<open>
  C1 as stated fails for a parameter that is present with an empty value: the request
  \<^verbatim>\<open>?cluster_id=\<close> supplies \<^verbatim>\<open>cluster_id\<close>, yet no filter by cluster id is applied, and
  an asset whose cluster id is not the supplied value is returned.
\<close>

theorem get_queryset_empty_cluster_id_not_filtered:
  "[''cluster_id'' \<mapsto> ''''] ''cluster_id'' = Some ''''
   \<and> get_queryset example_db [''cluster_id'' \<mapsto> ''''] = Inr [web1, web2, sql3]
   \<and> a_cluster web1 \<noteq> ''''"
  by (simp add: code_defs example_defs)

text \<open>
  C2, as the code has it. When \<^verbatim>\<open>admin_user_id\<close> names an admin user, whose key the
  empty text does not spell, the assets returned
  are those of the same request without \<^verbatim>\<open>admin_user_id\<close> whose cluster is one of the
  clusters of that admin user or which are themselves among the assets of that admin user.
\<close>

theorem admin_user_filter_clusters_or_direct:
  assumes "get_object_or_404 (to_key db AdminUser) au_id (admin_users db) (query_params ''admin_user_id'')
             = Inr admin_user"
    and "to_key db AdminUser [] \<noteq> Some (au_id admin_user)"
    and "get_queryset db query_params = Inr r"
  shows "\<exists>r'. get_queryset db (query_params(''admin_user_id'' := None)) = Inr r'
           \<and> set r = {a \<in> set r'. a_cluster a \<in> set (au_cluster_set admin_user)
                                  \<or> a_id a \<in> set (au_asset_set admin_user)}"
  using get_queryset_without [OF assms(3), of "''admin_user_id''"]
    found_spelling [OF assms(1,2)] assms(1)
  by (simp add: kept_admin_user_id)

theorem admin_user_filter_clusters_or_direct_witness:
  "get_object_or_404 (to_key example_db AdminUser) au_id (admin_users example_db)
       ([''admin_user_id'' \<mapsto> ''u1''] ''admin_user_id'') = Inr ops_admin
   \<and> to_key example_db AdminUser [] \<noteq> Some (au_id ops_admin)
   \<and> get_queryset example_db [''admin_user_id'' \<mapsto> ''u1''] = Inr [web1, web2]
   \<and> (\<exists>r'. get_queryset example_db ([''admin_user_id'' \<mapsto> ''u1''](''admin_user_id'' := None))
               = Inr r'
          \<and> set [web1, web2] = {a \<in> set r'. a_cluster a \<in> set (au_cluster_set ops_admin)
                                           \<or> a_id a \<in> set (au_asset_set ops_admin)})"
proof -
  have 1: "get_object_or_404 (to_key example_db AdminUser) au_id (admin_users example_db)
             ([''admin_user_id'' \<mapsto> ''u1''] ''admin_user_id'') = Inr ops_admin"
    by (simp add: get_object_or_404_def to_python_def and_then_def example_defs)
  have 2: "to_key example_db AdminUser [] \<noteq> Some (au_id ops_admin)"
    by (simp add: example_defs)
  have 3: "get_queryset example_db [''admin_user_id'' \<mapsto> ''u1''] = Inr [web1, web2]"
    by (simp add: code_defs example_defs)
  from admin_user_filter_clusters_or_direct [OF 1 2 3] 1 2 3 show ?thesis
    by (intro conjI)
qed

text \<open>
  C2 as stated fails: the admin user \<open>ops_admin\<close> has the single cluster \<open>c1\<close>, and the
  asset \<open>web2\<close> of cluster \<open>c2\<close> is kept, because it is one of the admin user's own assets.
\<close>

theorem admin_user_filter_keeps_direct_asset_outside_clusters:
  "get_object_or_404 (to_key example_db AdminUser) au_id (admin_users example_db) (Some ''u1'') = Inr ops_admin
   \<and> get_queryset example_db [''admin_user_id'' \<mapsto> ''u1''] = Inr [web1, web2]
   \<and> au_cluster_set ops_admin = [''c1'']
   \<and> a_cluster web2 = ''c2''"
  by (simp add: code_defs example_defs)

text \<open>
  C3. When \<^verbatim>\<open>node_id\<close> names a node, whose key the empty text does not spell, the assets
  returned are those of the same request
  without \<^verbatim>\<open>node_id\<close> that are attached to some node whose key starts with the key of the
  named node. So the assets attached to the node itself, and those attached to a node whose
  key extends the key of the named node, as the key of a descendant does, are all included.
  The match is on the characters of the key, wherever the extension begins. The claim is
  read on the set of assets returned: an asset attached to several such nodes is listed
  once for each of them.
\<close>

theorem node_filter_key_prefix:
  assumes "get_object_or_404 (to_key db Node) n_id (nodes db) (query_params ''node_id'') = Inr node"
    and "to_key db Node [] \<noteq> Some (n_id node)"
    and "get_queryset db query_params = Inr r"
  shows "\<exists>r'. get_queryset db (query_params(''node_id'' := None)) = Inr r'
           \<and> set r = {a \<in> set r'. \<exists>n \<in> set (nodes db).
                          n_id n \<in> set (a_nodes a) \<and> prefix (n_key node) (n_key n)}
           \<and> (\<forall>a \<in> set r'. \<forall>n \<in> set (nodes db). n_id n \<in> set (a_nodes a) \<longrightarrow>
                  (n = node \<or> (\<exists>s. n_key n = n_key node @ s)) \<longrightarrow> a \<in> set r)"
proof -
  have t: "truthy (query_params ''node_id'')"
    using found_spelling [OF assms(1,2)] .
  from get_queryset_without [OF assms(3), of "''node_id''"]
  obtain r' where r': "get_queryset db (query_params(''node_id'' := None)) = Inr r'"
    and k: "set r = {a \<in> set r'. kept (apply_filter db query_params ''node_id'') a}"
    by auto
  have eq: "set r = {a \<in> set r'. \<exists>n \<in> set (nodes db).
                          n_id n \<in> set (a_nodes a) \<and> prefix (n_key node) (n_key n)}"
    unfolding k kept_node_id using t assms(1) by (auto simp: set_asset_nodes)
  have "\<forall>a \<in> set r'. \<forall>n \<in> set (nodes db). n_id n \<in> set (a_nodes a) \<longrightarrow>
           (n = node \<or> (\<exists>s. n_key n = n_key node @ s)) \<longrightarrow> a \<in> set r"
    unfolding eq by (auto simp: prefix_def)
  with r' eq show ?thesis by blast
qed

theorem node_filter_key_prefix_witness:
  "get_object_or_404 (to_key example_db Node) n_id (nodes example_db) ([''node_id'' \<mapsto> ''n2''] ''node_id'')
     = Inr web_node
   \<and> to_key example_db Node [] \<noteq> Some (n_id web_node)
   \<and> get_queryset example_db [''node_id'' \<mapsto> ''n2''] = Inr [web2, web2]
   \<and> (\<exists>r'. get_queryset example_db ([''node_id'' \<mapsto> ''n2''](''node_id'' := None)) = Inr r'
          \<and> set [web2, web2] = {a \<in> set r'. \<exists>n \<in> set (nodes example_db).
                 n_id n \<in> set (a_nodes a) \<and> prefix (n_key web_node) (n_key n)}
          \<and> (\<forall>a \<in> set r'. \<forall>n \<in> set (nodes example_db). n_id n \<in> set (a_nodes a) \<longrightarrow>
                 (n = web_node \<or> (\<exists>s. n_key n = n_key web_node @ s))
                 \<longrightarrow> a \<in> set [web2, web2]))"
proof -
  have 1: "get_object_or_404 (to_key example_db Node) n_id (nodes example_db) ([''node_id'' \<mapsto> ''n2''] ''node_id'')
             = Inr web_node"
    by (simp add: get_object_or_404_def to_python_def and_then_def example_defs)
  have 2: "to_key example_db Node [] \<noteq> Some (n_id web_node)"
    by (simp add: example_defs)
  have 3: "get_queryset example_db [''node_id'' \<mapsto> ''n2''] = Inr [web2, web2]"
    by (simp add: code_defs example_defs)
  from node_filter_key_prefix [OF 1 2 3] 1 2 3 show ?thesis
    by (intro conjI)
qed

text \<open>
  C7. When \<^verbatim>\<open>system_user_id\<close> names a system user, whose key the empty text does not
  spell, the assets returned are those of the
  same request without \<^verbatim>\<open>system_user_id\<close> whose cluster is one of the clusters that
  \<^verbatim>\<open>get_clusters()\<close> returns for that system user. Whatever set \<open>direct\<close> of assets is
  associated with the system user directly, an asset of that set whose cluster is not one
  of those clusters is not returned.
\<close>

theorem system_user_filter_clusters_only:
  assumes "get_object_or_404 (to_key db SystemUser) su_id (system_users db) (query_params ''system_user_id'')
             = Inr system_user"
    and "to_key db SystemUser [] \<noteq> Some (su_id system_user)"
    and "get_queryset db query_params = Inr r"
  shows "\<exists>r'. get_queryset db (query_params(''system_user_id'' := None)) = Inr r'
           \<and> set r = {a \<in> set r'. a_cluster a \<in> set (su_get_clusters system_user)}
           \<and> (\<forall>a. a_id a \<in> direct \<and> a_cluster a \<notin> set (su_get_clusters system_user)
                  \<longrightarrow> a \<notin> set r)"
  using get_queryset_without [OF assms(3), of "''system_user_id''"]
    found_spelling [OF assms(1,2)] assms(1)
  by (auto simp: kept_system_user_id)

theorem system_user_filter_clusters_only_witness:
  "get_object_or_404 (to_key example_db SystemUser) su_id (system_users example_db)
       ([''system_user_id'' \<mapsto> ''s1''] ''system_user_id'') = Inr deploy_user
   \<and> to_key example_db SystemUser [] \<noteq> Some (su_id deploy_user)
   \<and> get_queryset example_db [''system_user_id'' \<mapsto> ''s1''] = Inr [web1, sql3]
   \<and> (\<exists>r'. get_queryset example_db
                ([''system_user_id'' \<mapsto> ''s1''](''system_user_id'' := None)) = Inr r'
          \<and> set [web1, sql3] = {a \<in> set r'. a_cluster a \<in> set (su_get_clusters deploy_user)}
          \<and> (\<forall>a. a_id a \<in> {''a2''} \<and> a_cluster a \<notin> set (su_get_clusters deploy_user)
                 \<longrightarrow> a \<notin> set [web1, sql3]))"
proof -
  have 1: "get_object_or_404 (to_key example_db SystemUser) su_id (system_users example_db)
             ([''system_user_id'' \<mapsto> ''s1''] ''system_user_id'') = Inr deploy_user"
    by (simp add: get_object_or_404_def to_python_def and_then_def example_defs)
  have 2: "to_key example_db SystemUser [] \<noteq> Some (su_id deploy_user)"
    by (simp add: example_defs)
  have 3: "get_queryset example_db [''system_user_id'' \<mapsto> ''s1''] = Inr [web1, sql3]"
    by (simp add: code_defs example_defs)
  from system_user_filter_clusters_only [OF 1 2 3, of "{''a2''}"] 1 2 3 show ?thesis
    by (intro conjI)
qed

text \<open>
  C8. When none of the five query parameters is present, or each one that is present is
  the empty string, \<^verbatim>\<open>get_queryset\<close> raises nothing and returns the base queryset
  unchanged, which is the list of all assets.
\<close>

theorem get_queryset_no_params_identity:
  assumes "\<forall>k \<in> set filter_params. \<not> truthy (query_params k)"
  shows "get_queryset db query_params = Inr (super_get_queryset db)
         \<and> super_get_queryset db = assets db"
  using assms by (simp add: get_queryset_def filter_params_def and_then_def super_get_queryset_def
        filter_cluster_id_def filter_asset_group_id_def filter_admin_user_id_def
        filter_system_user_id_def filter_node_id_def)

theorem get_queryset_no_params_identity_witness:
  "\<not> truthy ([''node_id'' \<mapsto> '''', ''limit'' \<mapsto> ''10''] ''node_id'')
   \<and> get_queryset example_db [''node_id'' \<mapsto> '''', ''limit'' \<mapsto> ''10'']
       = Inr [web1, web2, sql3]"
proof -
  have h: "\<forall>k \<in> set filter_params. \<not> truthy ([''node_id'' \<mapsto> '''', ''limit'' \<mapsto> ''10''] k)"
    by (simp add: filter_params_def)
  have b: "super_get_queryset example_db = [web1, web2, sql3]"
    by (simp add: super_get_queryset_def example_db_def)
  have r: "get_queryset example_db [''node_id'' \<mapsto> '''', ''limit'' \<mapsto> ''10'']
             = Inr [web1, web2, sql3]"
    using get_queryset_no_params_identity [OF h, of example_db, THEN conjunct1]
    unfolding b .
  have t: "\<not> truthy ([''node_id'' \<mapsto> '''', ''limit'' \<mapsto> ''10''] ''node_id'')"
    by simp
  from t r show ?thesis by (intro conjI)
qed

text \<open>
  C9. The filters compose conjunctively. When the request raises nothing, the set of assets
  returned is the intersection, over the five parameters, of what the request returns with
  that parameter alone; the request raises nothing exactly when none of these five
  requests does; and running the five blocks in any other order, \<open>order\<close> being any list
  of exactly the five names, gives the same set of assets, or raises as well. When every
  parameter is well formed, the error raised is the same in every order.
\<close>

theorem get_queryset_filters_conjunctive:
  "(get_queryset db query_params = Inr r \<longrightarrow>
      set r = (\<Inter>k \<in> set filter_params.
                 {a. \<exists>rk. get_queryset db (query_params |` {k}) = Inr rk \<and> a \<in> set rk}))
   \<and> ((\<exists>r. get_queryset db query_params = Inr r) \<longleftrightarrow>
        (\<forall>k \<in> set filter_params. \<exists>rk. get_queryset db (query_params |` {k}) = Inr rk))
   \<and> (set order = set filter_params \<longrightarrow>
        map_sum (\<lambda>e. ()) set (run_filters db query_params order (super_get_queryset db))
          = map_sum (\<lambda>e. ()) set (get_queryset db query_params))
   \<and> (set order = set filter_params \<and> well_formed db query_params \<longrightarrow>
        map_sum id set (run_filters db query_params order (super_get_queryset db))
          = map_sum id set (get_queryset db query_params))"
proof (intro conjI impI)
  assume r: "get_queryset db query_params = Inr r"
  have ok: "\<exists>rk. apply_filter db query_params k (assets db) = Inr rk
              \<and> set rk = {a \<in> set (assets db). kept (apply_filter db query_params k) a}"
    if "k \<in> set filter_params" for k
  proof -
    have "\<exists>rk. apply_filter db query_params k [] = Inr rk"
      using r that get_queryset_returns_iff [of db query_params] by blast
    then obtain rk where "apply_filter db query_params k (assets db) = Inr rk"
      using apply_filter_Inr_any by blast
    then show ?thesis using apply_filter_set by blast
  qed
  have ne: "''cluster_id'' \<in> set filter_params" by simp
  show "set r = (\<Inter>k \<in> set filter_params.
                 {a. \<exists>rk. get_queryset db (query_params |` {k}) = Inr rk \<and> a \<in> set rk})"
    unfolding get_queryset_set [OF r]
  proof (intro set_eqI iffI)
    fix a
    assume "a \<in> {a \<in> set (assets db).
                 \<forall>k \<in> set filter_params. kept (apply_filter db query_params k) a}"
    then show "a \<in> (\<Inter>k \<in> set filter_params.
                 {a. \<exists>rk. get_queryset db (query_params |` {k}) = Inr rk \<and> a \<in> set rk})"
      using ok by (fastforce simp: get_queryset_alone)
  next
    fix a
    assume a: "a \<in> (\<Inter>k \<in> set filter_params.
                 {a. \<exists>rk. get_queryset db (query_params |` {k}) = Inr rk \<and> a \<in> set rk})"
    have "a \<in> set (assets db) \<and> kept (apply_filter db query_params k) a"
      if "k \<in> set filter_params" for k
      using a that ok [OF that] by (fastforce simp: get_queryset_alone)
    with ne show "a \<in> {a \<in> set (assets db).
                 \<forall>k \<in> set filter_params. kept (apply_filter db query_params k) a}"
      by blast
  qed
next
  have alone: "(\<exists>rk. get_queryset db (query_params |` {k}) = Inr rk)
                 \<longleftrightarrow> (\<exists>rk. apply_filter db query_params k [] = Inr rk)"
    if "k \<in> set filter_params" for k
    unfolding get_queryset_alone [OF that] using apply_filter_Inr_any by blast
  have "(\<forall>k \<in> set filter_params. \<exists>rk. get_queryset db (query_params |` {k}) = Inr rk)
          \<longleftrightarrow> (\<forall>k \<in> set filter_params. \<exists>rk. apply_filter db query_params k [] = Inr rk)"
    by (rule ball_cong [OF refl]) (rule alone)
  with get_queryset_returns_iff [of db query_params]
  show "(\<exists>r. get_queryset db query_params = Inr r) \<longleftrightarrow>
        (\<forall>k \<in> set filter_params. \<exists>rk. get_queryset db (query_params |` {k}) = Inr rk)"
    by (simp only:)
next
  assume "set order = set filter_params"
  then show "map_sum (\<lambda>e. ()) set (run_filters db query_params order (super_get_queryset db))
          = map_sum (\<lambda>e. ()) set (get_queryset db query_params)"
    unfolding get_queryset_run_filters by (rule run_filters_order)
next
  assume "set order = set filter_params \<and> well_formed db query_params"
  then have o: "set order = set filter_params" and w: "well_formed db query_params"
    by (rule conjunct1, rule conjunct2)
  from o w show "map_sum id set (run_filters db query_params order (super_get_queryset db))
          = map_sum id set (get_queryset db query_params)"
    unfolding get_queryset_run_filters by (rule run_filters_order_well_formed)
qed

theorem get_queryset_filters_conjunctive_witness:
  "get_queryset example_db [''cluster_id'' \<mapsto> ''c1'', ''system_user_id'' \<mapsto> ''s1'']
     = Inr [web1]
   \<and> set (rev filter_params) = set filter_params
   \<and> well_formed example_db [''cluster_id'' \<mapsto> ''c1'', ''system_user_id'' \<mapsto> ''s1'']
   \<and> set [web1] = (\<Inter>k \<in> set filter_params.
         {a. \<exists>rk. get_queryset example_db
                     ([''cluster_id'' \<mapsto> ''c1'', ''system_user_id'' \<mapsto> ''s1''] |` {k}) = Inr rk
                \<and> a \<in> set rk})
   \<and> map_sum id set
         (run_filters example_db [''cluster_id'' \<mapsto> ''c1'', ''system_user_id'' \<mapsto> ''s1'']
            (rev filter_params) (super_get_queryset example_db))
       = Inr {web1}"
proof -
  have h: "get_queryset example_db [''cluster_id'' \<mapsto> ''c1'', ''system_user_id'' \<mapsto> ''s1'']
             = Inr [web1]"
    by (simp add: code_defs example_defs)
  have o: "set (rev filter_params) = set filter_params"
    by simp
  have w: "well_formed example_db [''cluster_id'' \<mapsto> ''c1'', ''system_user_id'' \<mapsto> ''s1'']"
    by (simp add: well_formed_def param_models_def example_defs)
  note t = get_queryset_filters_conjunctive
             [of example_db "[''cluster_id'' \<mapsto> ''c1'', ''system_user_id'' \<mapsto> ''s1'']"
                 "[web1]" "rev filter_params"]
  note 1 = t [THEN conjunct1, THEN mp, OF h]
  note 3 = t [THEN conjunct2, THEN conjunct2, THEN conjunct2, THEN mp, OF conjI, OF o w]
  have 4: "map_sum id set
         (run_filters example_db [''cluster_id'' \<mapsto> ''c1'', ''system_user_id'' \<mapsto> ''s1'']
            (rev filter_params) (super_get_queryset example_db))
       = Inr {web1}"
    unfolding 3 h by simp
  from h o w 1 4 show ?thesis by (intro conjI)
qed

text \<open>
  C10, as the code has it. Take a request in which every parameter that is not empty is
  well formed: a text that the key field of its model accepts. When \<^verbatim>\<open>admin_user_id\<close>,
  \<^verbatim>\<open>system_user_id\<close> or \<^verbatim>\<open>node_id\<close> is not empty and spells the key of no admin user,
  system user or node, \<^verbatim>\<open>get_queryset\<close> raises \<^verbatim>\<open>Http404\<close> and returns no list, empty or
  not. When \<^verbatim>\<open>pk\<close> is well formed and spells the key of no asset, both \<^verbatim>\<open>retrieve\<close> methods
  raise \<^verbatim>\<open>Http404\<close> and the log of started operations is the one before: nothing was
  started.
\<close>

theorem missing_record_raises_404:
  "(well_formed db query_params
     \<and> ((truthy (query_params ''admin_user_id'')
           \<and> (\<forall>x \<in> set (admin_users db).
                 to_python (to_key db AdminUser) (query_params ''admin_user_id'')
                   \<noteq> Inr (Some (au_id x))))
        \<or> (truthy (query_params ''system_user_id'')
           \<and> (\<forall>x \<in> set (system_users db).
                 to_python (to_key db SystemUser) (query_params ''system_user_id'')
                   \<noteq> Inr (Some (su_id x))))
        \<or> (truthy (query_params ''node_id'')
           \<and> (\<forall>x \<in> set (nodes db).
                 to_python (to_key db Node) (query_params ''node_id'') \<noteq> Inr (Some (n_id x)))))
     \<longrightarrow> get_queryset db query_params = Inl Http404)
   \<and> ((\<exists>k. to_python (to_key db Asset) (kwargs ''pk'') = Inr k
           \<and> (\<forall>x \<in> set (assets db). Some (a_id x) \<noteq> k))
     \<longrightarrow> refresh_hardware_retrieve update_asset_hardware_info_manual db kwargs calls
           = (Inl Http404, calls)
       \<and> admin_user_test_retrieve test_asset_connectability_manual db kwargs calls
           = (Inl Http404, calls))"
proof (intro conjI impI)
  assume h: "well_formed db query_params
     \<and> ((truthy (query_params ''admin_user_id'')
           \<and> (\<forall>x \<in> set (admin_users db).
                 to_python (to_key db AdminUser) (query_params ''admin_user_id'')
                   \<noteq> Inr (Some (au_id x))))
        \<or> (truthy (query_params ''system_user_id'')
           \<and> (\<forall>x \<in> set (system_users db).
                 to_python (to_key db SystemUser) (query_params ''system_user_id'')
                   \<noteq> Inr (Some (su_id x))))
        \<or> (truthy (query_params ''node_id'')
           \<and> (\<forall>x \<in> set (nodes db).
                 to_python (to_key db Node) (query_params ''node_id'') \<noteq> Inr (Some (n_id x)))))"
  then have wf: "well_formed db query_params" ..
  have lookup: "get_object_or_404 (to_key db m) pk table (query_params p) = Inl Http404"
    if "truthy (query_params p)" and "(p, m) \<in> set param_models"
      and "\<forall>x \<in> set table. to_python (to_key db m) (query_params p) \<noteq> Inr (Some (pk x))"
    for p m and pk :: "'r \<Rightarrow> ident" and table
  proof -
    from wf that(1,2) have "to_python (to_key db m) (query_params p) \<noteq> Inl InvalidKey"
      unfolding well_formed_iff by blast
    then obtain k where k: "to_python (to_key db m) (query_params p) = Inr k"
      by (cases "to_python (to_key db m) (query_params p)") (auto dest: to_python_Inl)
    with that(3) have "\<forall>x \<in> set table. Some (pk x) \<noteq> k" by auto
    from get_object_or_404_missing [OF k this] show ?thesis .
  qed
  from h have "\<exists>k \<in> set filter_params. apply_filter db query_params k [] = Inl Http404"
  proof (elim conjE disjE)
    assume "truthy (query_params ''admin_user_id'')"
      and "\<forall>x \<in> set (admin_users db).
             to_python (to_key db AdminUser) (query_params ''admin_user_id'')
               \<noteq> Inr (Some (au_id x))"
    then have "apply_filter db query_params ''admin_user_id'' [] = Inl Http404"
      by (simp add: apply_filter_def filter_admin_user_id_def and_then_def lookup
          param_models_def)
    then show ?thesis using filter_params_mem(3) by blast
  next
    assume "truthy (query_params ''system_user_id'')"
      and "\<forall>x \<in> set (system_users db).
             to_python (to_key db SystemUser) (query_params ''system_user_id'')
               \<noteq> Inr (Some (su_id x))"
    then have "apply_filter db query_params ''system_user_id'' [] = Inl Http404"
      by (simp add: apply_filter_def filter_system_user_id_def and_then_def lookup
          param_models_def)
    then show ?thesis using filter_params_mem(4) by blast
  next
    assume "truthy (query_params ''node_id'')"
      and "\<forall>x \<in> set (nodes db).
             to_python (to_key db Node) (query_params ''node_id'') \<noteq> Inr (Some (n_id x))"
    then have "apply_filter db query_params ''node_id'' [] = Inl Http404"
      by (simp add: apply_filter_def filter_node_id_def and_then_def lookup
          param_models_def)
    then show ?thesis using filter_params_mem(5) by blast
  qed
  then obtain k where k: "k \<in> set filter_params"
    and f: "apply_filter db query_params k [] = Inl Http404"
    by blast
  from f have "\<not> (\<exists>r. apply_filter db query_params k [] = Inr r)"
    by simp
  with k have "\<not> (\<forall>k \<in> set filter_params. \<exists>r. apply_filter db query_params k [] = Inr r)"
    by blast
  then have "\<not> (\<exists>r. get_queryset db query_params = Inr r)"
    by (rule contrapos_nn) (rule iffD1 [OF get_queryset_returns_iff])
  then obtain e where e: "get_queryset db query_params = Inl e"
    by (cases "get_queryset db query_params") auto
  from get_queryset_Inl [OF e] well_formed_Inl [OF wf] have "e = Http404"
    by blast
  with e show "get_queryset db query_params = Inl Http404" by simp
next
  assume "\<exists>k. to_python (to_key db Asset) (kwargs ''pk'') = Inr k
           \<and> (\<forall>x \<in> set (assets db). Some (a_id x) \<noteq> k)"
  then show "refresh_hardware_retrieve update_asset_hardware_info_manual db kwargs calls
           = (Inl Http404, calls)"
    by (auto simp: refresh_hardware_retrieve_def get_object_or_404_missing)
next
  assume "\<exists>k. to_python (to_key db Asset) (kwargs ''pk'') = Inr k
           \<and> (\<forall>x \<in> set (assets db). Some (a_id x) \<noteq> k)"
  then show "admin_user_test_retrieve test_asset_connectability_manual db kwargs calls
           = (Inl Http404, calls)"
    by (auto simp: admin_user_test_retrieve_def get_object_or_404_missing)
qed

theorem missing_record_raises_404_witness:
  "well_formed example_db [''cluster_id'' \<mapsto> ''c1'', ''system_user_id'' \<mapsto> ''s9'']
   \<and> truthy ([''cluster_id'' \<mapsto> ''c1'', ''system_user_id'' \<mapsto> ''s9''] ''system_user_id'')
   \<and> to_python (to_key example_db SystemUser) (Some ''s9'') = Inr (Some ''s9'')
   \<and> map su_id (system_users example_db) = [''s1'']
   \<and> get_queryset example_db [''cluster_id'' \<mapsto> ''c1'', ''system_user_id'' \<mapsto> ''s9'']
       = Inl Http404
   \<and> to_python (to_key example_db Asset) ([''pk'' \<mapsto> ''a9''] ''pk'') = Inr (Some ''a9'')
   \<and> map a_id (assets example_db) = [''a1'', ''a2'', ''a3'']
   \<and> refresh_hardware_retrieve probe_unreachable example_db [''pk'' \<mapsto> ''a9''] []
       = (Inl Http404, [])
   \<and> admin_user_test_retrieve ping_refused example_db [''pk'' \<mapsto> ''a9''] []
       = (Inl Http404, [])"
proof -
  have 0: "well_formed example_db [''cluster_id'' \<mapsto> ''c1'', ''system_user_id'' \<mapsto> ''s9'']"
    by (simp add: well_formed_def param_models_def example_defs)
  have 1: "truthy ([''cluster_id'' \<mapsto> ''c1'', ''system_user_id'' \<mapsto> ''s9''] ''system_user_id'')"
    by simp
  have 2: "\<forall>x \<in> set (system_users example_db).
             to_python (to_key example_db SystemUser)
               ([''cluster_id'' \<mapsto> ''c1'', ''system_user_id'' \<mapsto> ''s9''] ''system_user_id'')
               \<noteq> Inr (Some (su_id x))"
    by (simp add: to_python_def example_defs)
  have 3: "\<exists>k. to_python (to_key example_db Asset) ([''pk'' \<mapsto> ''a9''] ''pk'') = Inr k
             \<and> (\<forall>x \<in> set (assets example_db). Some (a_id x) \<noteq> k)"
    by (simp add: to_python_def example_defs)
  note t = missing_record_raises_404
             [of example_db "[''cluster_id'' \<mapsto> ''c1'', ''system_user_id'' \<mapsto> ''s9'']"
                 "[''pk'' \<mapsto> ''a9'']" probe_unreachable "[]" ping_refused]
  from 0 1 2 have 4:
    "get_queryset example_db [''cluster_id'' \<mapsto> ''c1'', ''system_user_id'' \<mapsto> ''s9'']
       = Inl Http404"
    using t [THEN conjunct1] by blast
  from 3 t [THEN conjunct2]
  have 5: "refresh_hardware_retrieve probe_unreachable example_db [''pk'' \<mapsto> ''a9''] []
             = (Inl Http404, [])
           \<and> admin_user_test_retrieve ping_refused example_db [''pk'' \<mapsto> ''a9''] []
             = (Inl Http404, [])"
    by (rule rev_mp)
  have 6: "to_python (to_key example_db SystemUser) (Some ''s9'') = Inr (Some ''s9'')"
    by (simp add: to_python_def example_defs)
  have 7: "map su_id (system_users example_db) = [''s1'']"
    by (simp add: example_defs)
  have 8: "to_python (to_key example_db Asset) ([''pk'' \<mapsto> ''a9''] ''pk'') = Inr (Some ''a9'')"
    by (simp add: to_python_def example_defs)
  have 9: "map a_id (assets example_db) = [''a1'', ''a2'', ''a3'']"
    by (simp add: example_defs)
  note 10 = 5 [THEN conjunct1] and 11 = 5 [THEN conjunct2]
  from 0 1 6 7 4 8 9 10 11 show ?thesis by (intro conjI)
qed

text \<open>
  C10 as stated fails for an identifier that is supplied empty: \<^verbatim>\<open>?node_id=\<close> is the key of
  no node, yet \<^verbatim>\<open>get_queryset\<close> skips the block and returns every asset, whatever the key
  fields are.
\<close>

theorem get_queryset_empty_node_id_no_404:
  "[''node_id'' \<mapsto> ''''] ''node_id'' = Some ''''
   \<and> map n_id (nodes example_db) = [''n1'', ''n2'', ''n3'', ''n4'']
   \<and> get_queryset example_db [''node_id'' \<mapsto> ''''] = Inr [web1, web2, sql3]"
  by (simp add: code_defs example_defs)

text \<open>
  Why the request must be well formed: the key fields of the example refuse a text with a
  blank, and a request with such a \<^verbatim>\<open>node_id\<close> ends with the exception of the key field,
  not with \<^verbatim>\<open>Http404\<close>. The same exception, raised by the block of \<^verbatim>\<open>cluster_id\<close>, comes
  before the \<^verbatim>\<open>Http404\<close> of a \<^verbatim>\<open>node_id\<close> that names no node.
\<close>

lemma refused_key_is_no_404:
  "get_queryset example_db [''node_id'' \<mapsto> ''n 9''] = Inl InvalidKey
   \<and> get_queryset example_db [''cluster_id'' \<mapsto> ''c 1'', ''node_id'' \<mapsto> ''n9'']
       = Inl InvalidKey
   \<and> get_queryset example_db [''node_id'' \<mapsto> ''n9''] = Inl Http404"
  by (simp add: code_defs example_defs)

section \<open>Properties of the action endpoints\<close>

text \<open>
  C4. For an asset that exists, \<^verbatim>\<open>AssetRefreshHardwareApi.retrieve\<close> starts the hardware
  probe once, and only once. When the \<^verbatim>\<open>dark\<close> entry of the summary is a dictionary that is
  not empty, the response carries its values with status 501; when the summary has no
  \<^verbatim>\<open>dark\<close> entry or an empty one, the response is \<^verbatim>\<open>{"msg": "ok"}\<close> with status 200.
\<close>

theorem refresh_hardware_response:
  assumes "get_object_or_404 (to_key db Asset) a_id (assets db) (kwargs ''pk'') = Inr asset"
  shows "(\<forall>dark. snd (update_asset_hardware_info_manual asset) ''dark'' = Some dark \<and> dark \<noteq> []
            \<longrightarrow> fst (refresh_hardware_retrieve update_asset_hardware_info_manual db kwargs calls)
                  = Inr \<lparr>data = Values (map snd dark), status = 501\<rparr>)
       \<and> (snd (update_asset_hardware_info_manual asset) ''dark'' = None
            \<or> snd (update_asset_hardware_info_manual asset) ''dark'' = Some []
            \<longrightarrow> fst (refresh_hardware_retrieve update_asset_hardware_info_manual db kwargs calls)
                  = Inr \<lparr>data = Fields [(''msg'', ''ok'')], status = 200\<rparr>)
       \<and> snd (refresh_hardware_retrieve update_asset_hardware_info_manual db kwargs calls)
            = calls @ [UpdateAssetHardwareInfoManual asset]"
  using assms
  by (auto simp: refresh_hardware_retrieve_def Let_def Response_def split: option.splits)

theorem refresh_hardware_response_witness:
  "get_object_or_404 (to_key example_db Asset) a_id (assets example_db) ([''pk'' \<mapsto> ''a1''] ''pk'') = Inr web1
   \<and> refresh_hardware_retrieve probe_unreachable example_db [''pk'' \<mapsto> ''a1''] []
       = (Inr \<lparr>data = Values [''timeout''], status = 501\<rparr>, [UpdateAssetHardwareInfoManual web1])
   \<and> refresh_hardware_retrieve probe_ok example_db [''pk'' \<mapsto> ''a1''] []
       = (Inr \<lparr>data = Fields [(''msg'', ''ok'')], status = 200\<rparr>,
          [UpdateAssetHardwareInfoManual web1])"
proof -
  have 1: "get_object_or_404 (to_key example_db Asset) a_id (assets example_db) ([''pk'' \<mapsto> ''a1''] ''pk'') = Inr web1"
    by (simp add: get_object_or_404_def to_python_def and_then_def example_defs)
  have 2: "refresh_hardware_retrieve probe_unreachable example_db [''pk'' \<mapsto> ''a1''] []
       = (Inr \<lparr>data = Values [''timeout''], status = 501\<rparr>, [UpdateAssetHardwareInfoManual web1])"
    using refresh_hardware_response
            [where db = example_db and kwargs = "[''pk'' \<mapsto> ''a1'']" and asset = web1
               and update_asset_hardware_info_manual = probe_unreachable and calls = "[]", OF 1]
    by (simp add: prod_eq_iff probe_unreachable_def web1_def)
  have 3: "refresh_hardware_retrieve probe_ok example_db [''pk'' \<mapsto> ''a1''] []
       = (Inr \<lparr>data = Fields [(''msg'', ''ok'')], status = 200\<rparr>,
          [UpdateAssetHardwareInfoManual web1])"
    using refresh_hardware_response
            [where db = example_db and kwargs = "[''pk'' \<mapsto> ''a1'']" and asset = web1
               and update_asset_hardware_info_manual = probe_ok and calls = "[]", OF 1]
    by (simp add: prod_eq_iff probe_ok_def)
  from 1 2 3 show ?thesis by (intro conjI)
qed

text \<open>
  C5. For an asset that exists, \<^verbatim>\<open>AssetAdminUserTestApi.retrieve\<close> starts the connectivity
  test once; the response is \<^verbatim>\<open>{"msg": "pong"}\<close> with status 200 exactly when the test
  reports success, and \<^verbatim>\<open>{"error": msg}\<close> with status 502, \<open>msg\<close> being the message of the
  test, exactly when it reports failure.
\<close>

theorem admin_user_test_response:
  assumes "get_object_or_404 (to_key db Asset) a_id (assets db) (kwargs ''pk'') = Inr asset"
    and "test_asset_connectability_manual asset = (ok, msg)"
  shows "(fst (admin_user_test_retrieve test_asset_connectability_manual db kwargs calls)
            = Inr \<lparr>data = Fields [(''msg'', ''pong'')], status = 200\<rparr> \<longleftrightarrow> ok)
       \<and> (fst (admin_user_test_retrieve test_asset_connectability_manual db kwargs calls)
            = Inr \<lparr>data = Fields [(''error'', msg)], status = 502\<rparr> \<longleftrightarrow> \<not> ok)
       \<and> snd (admin_user_test_retrieve test_asset_connectability_manual db kwargs calls)
            = calls @ [TestAssetConnectabilityManual asset]"
  using assms
  by (simp add: admin_user_test_retrieve_def Let_def Response_def)

theorem admin_user_test_response_witness:
  "get_object_or_404 (to_key example_db Asset) a_id (assets example_db) ([''pk'' \<mapsto> ''a3''] ''pk'') = Inr sql3
   \<and> ping_refused sql3 = (False, ''connection refused'')
   \<and> admin_user_test_retrieve ping_refused example_db [''pk'' \<mapsto> ''a3''] []
       = (Inr \<lparr>data = Fields [(''error'', ''connection refused'')], status = 502\<rparr>
            :: error + response,
          [TestAssetConnectabilityManual sql3])"
proof -
  have 1: "get_object_or_404 (to_key example_db Asset) a_id (assets example_db) ([''pk'' \<mapsto> ''a3''] ''pk'') = Inr sql3"
    by (simp add: get_object_or_404_def to_python_def and_then_def example_defs)
  have 2: "ping_refused sql3 = (False, ''connection refused'')"
    by (simp add: ping_refused_def)
  have 3: "admin_user_test_retrieve ping_refused example_db [''pk'' \<mapsto> ''a3''] []
       = (Inr \<lparr>data = Fields [(''error'', ''connection refused'')], status = 502\<rparr>,
          [TestAssetConnectabilityManual sql3])"
    using admin_user_test_response
            [where db = example_db and kwargs = "[''pk'' \<mapsto> ''a3'']" and asset = sql3
               and test_asset_connectability_manual = ping_refused and calls = "[]", OF 1 2]
    by (simp add: prod_eq_iff)
  from 1 2 3 show ?thesis by (intro conjI)
qed

section \<open>Permission checks\<close>

text \<open>
  C6. Each endpoint runs its handler exactly when the caller has the permission of the
  view: a superuser or an app user for \<^verbatim>\<open>AssetViewSet\<close>, a valid user for
  \<^verbatim>\<open>UserAssetListView\<close>, a superuser for \<^verbatim>\<open>AssetListUpdateApi\<close>,
  \<^verbatim>\<open>AssetRefreshHardwareApi\<close> and \<^verbatim>\<open>AssetAdminUserTestApi\<close>. For any other caller the
  request is refused, whatever the handler would do, and the state, with the log of started
  operations, is the one before.
\<close>

theorem permission_checked_before_handler:
  "(asset_view_set db u query_params calls =
      (if is_superuser u \<or> is_app_user u then (get_queryset db query_params, calls)
       else (Inl PermissionDenied, calls)))
   \<and> (user_asset_list_view get_user_granted_assets db u calls =
      (if is_valid u then (Inr (user_get_queryset get_user_granted_assets db u), calls)
       else (Inl PermissionDenied, calls)))
   \<and> (asset_list_update_api bulk_update u s =
      (if is_superuser u then bulk_update s else (Inl PermissionDenied, s)))
   \<and> (asset_refresh_hardware_api update_asset_hardware_info_manual db u kwargs calls =
      (if is_superuser u
       then refresh_hardware_retrieve update_asset_hardware_info_manual db kwargs calls
       else (Inl PermissionDenied, calls)))
   \<and> (asset_admin_user_test_api test_asset_connectability_manual db u kwargs calls =
      (if is_superuser u
       then admin_user_test_retrieve test_asset_connectability_manual db kwargs calls
       else (Inl PermissionDenied, calls)))"
  by (simp add: asset_view_set_def user_asset_list_view_def asset_list_update_api_def
      asset_refresh_hardware_api_def asset_admin_user_test_api_def dispatch_def
      check_permissions_def)

theorem permission_checked_before_handler_witness:
  "asset_view_set example_db plain_user [''cluster_id'' \<mapsto> ''c1''] [] = (Inl PermissionDenied, [])
   \<and> user_asset_list_view (\<lambda>u. [web1]) example_db anonymous [] = (Inl PermissionDenied, [])
   \<and> asset_list_update_api (\<lambda>s. (Inr (), Suc s)) plain_user (0::nat) = (Inl PermissionDenied, 0)
   \<and> asset_refresh_hardware_api probe_unreachable example_db plain_user [''pk'' \<mapsto> ''a1''] []
       = (Inl PermissionDenied, [])
   \<and> asset_admin_user_test_api ping_ok example_db plain_user [''pk'' \<mapsto> ''a1''] []
       = (Inl PermissionDenied :: error + response, [])
   \<and> asset_list_update_api (\<lambda>s. (Inr (), Suc s)) superuser (0::nat) = (Inr (), 1)"
  using permission_checked_before_handler
          [of example_db plain_user "[''cluster_id'' \<mapsto> ''c1'']" "[]" "\<lambda>u. [web1]"
              "\<lambda>s. (Inr (), Suc s)" "0::nat" probe_unreachable "[''pk'' \<mapsto> ''a1'']" ping_ok]
        permission_checked_before_handler
          [of example_db anonymous "[''cluster_id'' \<mapsto> ''c1'']" "[]" "\<lambda>u. [web1]"
              "\<lambda>s. (Inr (), Suc s)" "0::nat" probe_unreachable "[''pk'' \<mapsto> ''a1'']" ping_ok]
        permission_checked_before_handler
          [of example_db superuser "[''cluster_id'' \<mapsto> ''c1'']" "[]" "\<lambda>u. [web1]"
              "\<lambda>s. (Inr (), Suc s)" "0::nat" probe_unreachable "[''pk'' \<mapsto> ''a1'']" ping_ok]
  by (simp add: plain_user_def anonymous_def superuser_def)

end
